theory Spec2Isabelle
  imports Complex_Main "HOL-Library.Multiset"
begin

section \<open>Data model of the reference line provider\<close>

text \<open>
  The embedding follows \<^verbatim>\<open>modules/planning/reference_line/reference_line_provider.cc\<close>.
  A C++ \<^verbatim>\<open>double\<close> is modelled as the real number it holds, and the arithmetic this
  file does on doubles is rounded as IEEE 754 binary64 arithmetic rounds it (see
  \<open>round_double\<close> below); infinities and NaN are outside the model. A \<^verbatim>\<open>std::list\<close> is a list, the \<^verbatim>\<open>std::unordered_map\<close> of
  segment histories is a map from the segment id to its entry.
\<close>

record Vec2d =
  vec_x :: real
  vec_y :: real

text \<open>The entry of \<^verbatim>\<open>segment_history_\<close> kept for one segment id.\<close>

record SegmentHistory =
  min_l :: real
  last_point :: Vec2d
  accumulate_s :: real

text \<open>
  \<^verbatim>\<open>hdmap::RouteSegments\<close> is declared outside this file. The provider uses its id,
  its flag \<^verbatim>\<open>IsOnSegment()\<close> and its method \<^verbatim>\<open>GetProjection(point, &s, &l, &waypoint)\<close>,
  which returns false when the projection fails and otherwise sets the longitudinal
  offset \<open>s\<close> and the lateral offset \<open>l\<close> (the way point is never read here).
\<close>

record RouteSegments =
  Id_seg :: string
  IsOnSegment :: bool
  GetProjection :: "Vec2d \<Rightarrow> (real \<times> real) option"

text \<open>
  \<^verbatim>\<open>ReferenceLine\<close>: a path with a length and a point at every arclength.
\<close>

record ReferenceLine =
  Length :: real
  GetReferencePoint :: "real \<Rightarrow> Vec2d"

record VehicleState =
  vs_x :: real
  vs_y :: real
  linear_velocity :: real

text \<open>The gflags the provider reads.\<close>

record Flags =
  FLAGS_reckless_change_lane :: bool
  FLAGS_min_length_for_lane_change :: real
  FLAGS_prioritize_change_lane :: bool
  FLAGS_enable_smooth_reference_line :: bool
  FLAGS_look_forward_time_sec :: real
  FLAGS_look_forward_min_distance :: real
  FLAGS_look_forward_distance :: real
  FLAGS_look_backward_distance :: real
  FLAGS_enable_reference_line_provider_thread :: bool

type_synonym history = "string \<rightharpoonup> SegmentHistory"

section \<open>Arithmetic on doubles\<close>

text \<open>
  The sum, the product and the literal \<^verbatim>\<open>0.6\<close> of \<^verbatim>\<open>IsAllowChangeLane\<close> are doubles: each
  is the exact result rounded to the nearest double, ties to the even significand.
  \<open>pow2 e\<close> is \<open>2\<close> to the power \<open>e\<close>. \<open>double_exponent x\<close> is the exponent of the
  binade of \<open>x\<close>, found by a search upwards from \<open>-1022\<close>, the exponent of the smallest
  normal numbers and of the subnormal ones, and stopping at \<open>1023\<close>, the exponent of the
  largest. A double of that binade is a multiple of \<open>pow2 (e - 52)\<close>. A result beyond the
  largest double would be an infinity and is outside the model.
\<close>

definition pow2 :: "int \<Rightarrow> real" where
  "pow2 e = (if 0 \<le> e then 2 ^ nat e else 1 / 2 ^ nat (- e))"

fun exponent_search :: "nat \<Rightarrow> int \<Rightarrow> real \<Rightarrow> int" where
  "exponent_search 0 e a = e"
| "exponent_search (Suc n) e a =
     (if a < pow2 (e + 1) then e else exponent_search n (e + 1) a)"

definition double_exponent :: "real \<Rightarrow> int" where
  "double_exponent x = exponent_search 2045 (- 1022) \<bar>x\<bar>"

definition round_half_even :: "real \<Rightarrow> int" where
  "round_half_even r =
     (let f = \<lfloor>r\<rfloor>; d = r - of_int f
      in if d < 1 / 2 then f
         else if d > 1 / 2 then f + 1
         else if even f then f else f + 1)"

definition round_double :: "real \<Rightarrow> real" where
  "round_double x =
     (let ulp = pow2 (double_exponent x - 52)
      in ulp * of_int (round_half_even (x / ulp)))"

section \<open>Lane change eligibility: IsAllowChangeLane\<close>

text \<open>
  Modelled from the spec: \<^verbatim>\<open>common::util::DistanceXY\<close> is defined outside this file;
  the spec calls it the planar distance between two positions. It returns a double: the
  model takes the differences of the coordinates as doubles and the distance as the
  nearest double to the root of the sum of their squares.
\<close>

definition DistanceXY :: "Vec2d \<Rightarrow> Vec2d \<Rightarrow> real" where
  "DistanceXY a b =
     round_double (sqrt ((round_double (vec_x a - vec_x b))\<^sup>2 +
                         (round_double (vec_y a - vec_y b))\<^sup>2))"

definition kChangeLaneMinL :: real where
  "kChangeLaneMinL = 0.25"

text \<open>The literal \<^verbatim>\<open>0.6\<close> is the double nearest to six tenths.\<close>

definition kChangeLaneMinLengthFactor :: real where
  "kChangeLaneMinLengthFactor = round_double 0.6"

text \<open>
  The loop of lines 79 to 83: the first segment of the list the vehicle is on,
  \<open>None\<close> when the iterator reaches the end of the list.
\<close>

fun forward_segment :: "RouteSegments list \<Rightarrow> RouteSegments option" where
  "forward_segment [] = None"
| "forward_segment (seg # rest) =
     (if IsOnSegment seg then Some seg else forward_segment rest)"

text \<open>
  \<^verbatim>\<open>IsAllowChangeLane(point, route_segments)\<close> reads and writes the member
  \<^verbatim>\<open>segment_history_\<close>: the model takes the table and returns it with the answer.
\<close>

definition IsAllowChangeLane ::
  "Flags \<Rightarrow> Vec2d \<Rightarrow> RouteSegments list \<Rightarrow> history \<Rightarrow> bool \<times> history" where
  "IsAllowChangeLane flags point segs hist =
     (if FLAGS_reckless_change_lane flags then (True, hist)
      else if length segs \<le> 1 then (False, hist)
      else
        (case forward_segment segs of
           None \<Rightarrow> (True, hist)
         | Some fwd \<Rightarrow>
             (case GetProjection fwd point of
                None \<Rightarrow> (False, hist)
              | Some (s, l) \<Rightarrow>
                  (case hist (Id_seg fwd) of
                     None \<Rightarrow>
                       (False,
                        hist(Id_seg fwd \<mapsto>
                          \<lparr>min_l = \<bar>l\<bar>, last_point = point, accumulate_s = 0\<rparr>))
                   | Some h \<Rightarrow>
                       (let m = min (min_l h) \<bar>l\<bar>;
                            dist = DistanceXY (last_point h) point;
                            acc = round_double (accumulate_s h + dist)
                        in (m < kChangeLaneMinL \<and>
                            acc \<ge> round_double
                              (kChangeLaneMinLengthFactor * FLAGS_min_length_for_lane_change flags),
                            hist(Id_seg fwd \<mapsto>
                              \<lparr>min_l = m, last_point = point, accumulate_s = acc\<rparr>)))))))"

section \<open>Segment prioritizer: PrioritzeChangeLane\<close>

text \<open>
  The loop of lines 204 to 211 walks the list; \<open>visited\<close> holds the segments the
  iterator has passed. At the first segment the vehicle is not on, \<^verbatim>\<open>splice\<close> moves that
  one element to the front and the loop stops; at the end of the list nothing has moved.
\<close>

fun PrioritzeChangeLane_from :: "RouteSegments list \<Rightarrow> RouteSegments list \<Rightarrow> RouteSegments list" where
  "PrioritzeChangeLane_from visited [] = visited"
| "PrioritzeChangeLane_from visited (seg # rest) =
     (if \<not> IsOnSegment seg then seg # visited @ rest
      else PrioritzeChangeLane_from (visited @ [seg]) rest)"

definition PrioritzeChangeLane :: "RouteSegments list \<Rightarrow> RouteSegments list" where
  "PrioritzeChangeLane segs = PrioritzeChangeLane_from [] segs"

section \<open>Collaborators and the state of the provider\<close>

text \<open>
  The map (\<^verbatim>\<open>hdmap::PncMap\<close>) and the smoother are defined outside this file. They are
  parameters of the model: \<open>'m\<close> is the state of the map object, \<open>'r\<close> a routing response.
  \<^item> \<open>pnc_UpdateRoutingResponse\<close> returns the answer of the map and the map's new state;
  \<^item> \<open>pnc_IsSameRouting\<close> reads the map's state;
  \<^item> \<open>pnc_GetRouteSegments\<close> returns the candidate segments, \<open>None\<close> when it fails;
  \<^item> \<open>CreatePathFromLaneSegments\<close> builds the raw reference line of a segment;
  \<^item> \<open>smoother_Smooth\<close> returns the smoothed line, \<open>None\<close> when the smoother fails.
\<close>

record ('m, 'r) Collaborators =
  pnc_UpdateRoutingResponse :: "'m \<Rightarrow> 'r \<Rightarrow> bool \<times> 'm"
  pnc_IsSameRouting :: "'m \<Rightarrow> bool"
  pnc_GetRouteSegments :: "'m \<Rightarrow> VehicleState \<Rightarrow> real \<Rightarrow> real \<Rightarrow> RouteSegments list option"
  CreatePathFromLaneSegments :: "RouteSegments \<Rightarrow> ReferenceLine"
  smoother_Smooth :: "ReferenceLine \<Rightarrow> ReferenceLine option"

text \<open>
  The members of \<^verbatim>\<open>ReferenceLineProvider\<close> the functions below read or write.
  \<open>reference_lines\<close> and \<open>route_segments\<close> are the published snapshot.
\<close>

record 'm ReferenceLineProvider =
  pnc_map :: 'm
  vehicle_state :: VehicleState
  segment_history :: history
  has_routing :: bool
  reference_lines :: "ReferenceLine list"
  route_segments :: "RouteSegments list"

section \<open>UpdateRoutingResponse and UpdateVehicleState\<close>

definition UpdateRoutingResponse ::
  "('m, 'r) Collaborators \<Rightarrow> 'r \<Rightarrow> 'm ReferenceLineProvider \<Rightarrow> bool \<times> 'm ReferenceLineProvider" where
  "UpdateRoutingResponse env routing st =
     (case pnc_UpdateRoutingResponse env (pnc_map st) routing of
        (False, m') \<Rightarrow> (False, st\<lparr>pnc_map := m'\<rparr>)
      | (True, m') \<Rightarrow>
          (True,
           st\<lparr>pnc_map := m',
              segment_history :=
                (if \<not> pnc_IsSameRouting env m' then Map.empty else segment_history st),
              has_routing := True\<rparr>))"

definition UpdateVehicleState ::
  "VehicleState \<Rightarrow> 'm ReferenceLineProvider \<Rightarrow> 'm ReferenceLineProvider" where
  "UpdateVehicleState vs st = st\<lparr>vehicle_state := vs\<rparr>"

section \<open>Smoothing validator: IsReferenceLineSmoothValid\<close>

text \<open>
  Modelled from the spec: \<^verbatim>\<open>Vec2d::DistanceTo\<close> is defined outside this file; the spec
  calls it the planar distance between the two points. It returns a double, taken as for
  \<open>DistanceXY\<close>.
\<close>

definition DistanceTo :: "Vec2d \<Rightarrow> Vec2d \<Rightarrow> real" where
  "DistanceTo a b =
     round_double (sqrt ((round_double (vec_x a - vec_x b))\<^sup>2 +
                         (round_double (vec_y a - vec_y b))\<^sup>2))"

definition kReferenceLineDiffCheckResolution :: real where
  "kReferenceLineDiffCheckResolution = 5.0"

definition INT_MAX :: int where
  "INT_MAX = 2147483647"

text \<open>
  The loop of lines 263 to 273. Its counter is declared \<^verbatim>\<open>int s\<close>: the comparison with
  the length and the call of \<^verbatim>\<open>GetReferencePoint\<close> convert it to a double, and
  \<^verbatim>\<open>s += 5.0\<close> converts the sum back to \<^verbatim>\<open>int\<close>. That conversion is undefined in C++
  when the sum is above \<open>INT_MAX\<close>; the model answers \<open>None\<close> there, \<open>Some b\<close> when the
  function returns \<open>b\<close>.
\<close>

function IsReferenceLineSmoothValid_from ::
  "ReferenceLine \<Rightarrow> ReferenceLine \<Rightarrow> int \<Rightarrow> bool option" where
  "IsReferenceLineSmoothValid_from raw smoothed s =
     (if real_of_int s < Length raw then
        (let xy_old = GetReferencePoint raw (real_of_int s);
             xy_new = GetReferencePoint smoothed (real_of_int s);
             diff = DistanceTo xy_old xy_new
         in if diff > kReferenceLineDiffCheckResolution then Some False
            else if s + 5 > INT_MAX then None
            else IsReferenceLineSmoothValid_from raw smoothed (s + 5))
      else Some True)"
  by pat_completeness auto
termination
  by (relation "measure (\<lambda>(raw, smoothed, s). nat (INT_MAX + 1 - s))") (auto simp: INT_MAX_def)

declare IsReferenceLineSmoothValid_from.simps [simp del]

definition IsReferenceLineSmoothValid :: "ReferenceLine \<Rightarrow> ReferenceLine \<Rightarrow> bool option" where
  "IsReferenceLineSmoothValid raw smoothed = IsReferenceLineSmoothValid_from raw smoothed 0"

section \<open>The pipeline: SmoothReferenceLine and CreateReferenceLineFromRouting\<close>

text \<open>
  \<^verbatim>\<open>SmoothReferenceLine(lanes, &reference_line)\<close>: \<open>Some (Some line)\<close> when it returns
  true with the line written, \<open>Some None\<close> when it returns false, \<open>None\<close> when the
  validator's counter leaves the range of \<^verbatim>\<open>int\<close>.
\<close>

definition SmoothReferenceLine ::
  "('m, 'r) Collaborators \<Rightarrow> Flags \<Rightarrow> RouteSegments \<Rightarrow> ReferenceLine option option" where
  "SmoothReferenceLine env flags lanes =
     (let raw_reference_line = CreatePathFromLaneSegments env lanes
      in if \<not> FLAGS_enable_smooth_reference_line flags then Some (Some raw_reference_line)
         else
           (case smoother_Smooth env raw_reference_line of
              None \<Rightarrow> Some None
            | Some reference_line \<Rightarrow>
                (case IsReferenceLineSmoothValid raw_reference_line reference_line of
                   None \<Rightarrow> None
                 | Some False \<Rightarrow> Some None
                 | Some True \<Rightarrow> Some (Some reference_line))))"

text \<open>
  The loop of lines 239 to 250 over the candidates. The two output lists are the lists the
  caller passed by pointer: the loop appends to them.
\<close>

fun smooth_candidates ::
  "('m, 'r) Collaborators \<Rightarrow> Flags \<Rightarrow> bool \<Rightarrow> RouteSegments list \<Rightarrow>
   ReferenceLine list \<times> RouteSegments list \<Rightarrow> (ReferenceLine list \<times> RouteSegments list) option" where
  "smooth_candidates env flags is_allow_change_lane [] out = Some out"
| "smooth_candidates env flags is_allow_change_lane (lanes # rest) (lines, segments) =
     (if \<not> is_allow_change_lane \<and> \<not> IsOnSegment lanes
      then smooth_candidates env flags is_allow_change_lane rest (lines, segments)
      else
        (case SmoothReferenceLine env flags lanes of
           None \<Rightarrow> None
         | Some None \<Rightarrow> smooth_candidates env flags is_allow_change_lane rest (lines, segments)
         | Some (Some reference_line) \<Rightarrow>
             smooth_candidates env flags is_allow_change_lane rest
               (lines @ [reference_line], segments @ [lanes])))"

definition look_forward_distance_of :: "Flags \<Rightarrow> VehicleState \<Rightarrow> real" where
  "look_forward_distance_of flags vs =
     (if round_double (linear_velocity vs * FLAGS_look_forward_time_sec flags)
           > FLAGS_look_forward_min_distance flags
      then FLAGS_look_forward_distance flags
      else FLAGS_look_forward_min_distance flags)"

definition snapshot_point :: "'m ReferenceLineProvider \<Rightarrow> Vec2d" where
  "snapshot_point st = \<lparr>vec_x = vs_x (vehicle_state st), vec_y = vs_y (vehicle_state st)\<rparr>"

text \<open>
  To tell how often and with which arguments a run calls \<^verbatim>\<open>IsAllowChangeLane\<close>, the model
  of the run keeps a log of the calls: \<open>IsAllowChangeLane_logged\<close> is the call itself, on the
  history table, and appends its arguments to the log.
\<close>

record IsAllowChangeLane_call =
  call_point :: Vec2d
  call_route_segments :: "RouteSegments list"

definition IsAllowChangeLane_logged ::
  "Flags \<Rightarrow> Vec2d \<Rightarrow> RouteSegments list \<Rightarrow> history \<times> IsAllowChangeLane_call list \<Rightarrow>
   bool \<times> history \<times> IsAllowChangeLane_call list" where
  "IsAllowChangeLane_logged flags point segs state =
     (let allowed = IsAllowChangeLane flags point segs (fst state)
      in (fst allowed, snd allowed,
          snd state @ [\<lparr>call_point = point, call_route_segments = segs\<rparr>]))"

text \<open>
  \<^verbatim>\<open>CreateReferenceLineFromRouting(&reference_lines, &segments)\<close>. The result is the
  returned boolean, the two output lists and the provider (its history table is written by
  \<^verbatim>\<open>IsAllowChangeLane\<close>), with the log of the calls of \<^verbatim>\<open>IsAllowChangeLane\<close>; \<open>None\<close> when
  a validation was undefined. \<open>CreateReferenceLineFromRouting\<close> is the same run without the
  log.
\<close>

definition CreateReferenceLineFromRouting_traced ::
  "('m, 'r) Collaborators \<Rightarrow> Flags \<Rightarrow> 'm ReferenceLineProvider \<Rightarrow>
   ReferenceLine list \<times> RouteSegments list \<Rightarrow>
   ((bool \<times> (ReferenceLine list \<times> RouteSegments list) \<times> 'm ReferenceLineProvider) \<times>
    IsAllowChangeLane_call list) option" where
  "CreateReferenceLineFromRouting_traced env flags st out =
     (let look_forward_distance = look_forward_distance_of flags (vehicle_state st);
          point = snapshot_point st
      in case pnc_GetRouteSegments env (pnc_map st) (vehicle_state st)
                (FLAGS_look_backward_distance flags) look_forward_distance of
           None \<Rightarrow> Some ((False, out, st), [])
         | Some segs0 \<Rightarrow>
             (let segs = (if FLAGS_prioritize_change_lane flags
                          then PrioritzeChangeLane segs0 else segs0);
                  allowed = IsAllowChangeLane_logged flags point segs (segment_history st, []);
                  is_allow_change_lane = fst allowed;
                  st' = st\<lparr>segment_history := fst (snd allowed)\<rparr>;
                  calls = snd (snd allowed)
              in case smooth_candidates env flags is_allow_change_lane segs out of
                   None \<Rightarrow> None
                 | Some (lines, segments) \<Rightarrow>
                     Some ((lines \<noteq> [], (lines, segments), st'), calls)))"

definition CreateReferenceLineFromRouting ::
  "('m, 'r) Collaborators \<Rightarrow> Flags \<Rightarrow> 'm ReferenceLineProvider \<Rightarrow>
   ReferenceLine list \<times> RouteSegments list \<Rightarrow>
   (bool \<times> (ReferenceLine list \<times> RouteSegments list) \<times> 'm ReferenceLineProvider) option" where
  "CreateReferenceLineFromRouting env flags st out =
     map_option fst (CreateReferenceLineFromRouting_traced env flags st out)"

text \<open>
  The line a candidate contributes to a run whose eligibility answer is \<open>is_allow\<close>:
  none when the candidate is passed over (lane change not allowed and the vehicle not on
  it), none when the smoother or the validation fails, the smoothed line otherwise.
\<close>

definition usable_line ::
  "('m, 'r) Collaborators \<Rightarrow> Flags \<Rightarrow> bool \<Rightarrow> RouteSegments \<Rightarrow> ReferenceLine option" where
  "usable_line env flags is_allow lanes =
     (if \<not> is_allow \<and> \<not> IsOnSegment lanes then None
      else (case SmoothReferenceLine env flags lanes of
              Some (Some reference_line) \<Rightarrow> Some reference_line
            | _ \<Rightarrow> None))"

section \<open>The worker: one iteration of GenerateThread\<close>

text \<open>
  One pass of the loop body of lines 162 to 180 after the sleep. The boolean says whether
  the iteration published (replaced the snapshot and notified a consumer).
\<close>

definition GenerateThread_iteration ::
  "('m, 'r) Collaborators \<Rightarrow> Flags \<Rightarrow> 'm ReferenceLineProvider \<Rightarrow>
   (bool \<times> 'm ReferenceLineProvider) option" where
  "GenerateThread_iteration env flags st =
     (if \<not> has_routing st then Some (False, st)
      else
        (case CreateReferenceLineFromRouting env flags st ([], []) of
           None \<Rightarrow> None
         | Some (False, out, st') \<Rightarrow> Some (False, st')
         | Some (True, (lines, segments), st') \<Rightarrow>
             Some (True, st'\<lparr>reference_lines := lines, route_segments := segments\<rparr>)))"

text \<open>
  What can happen to a provider in threaded mode: a routing update, a vehicle state update,
  an iteration of the worker. \<open>run\<close> applies a sequence of them and counts the
  publications.
\<close>

datatype 'r event = Routing 'r | Vehicle VehicleState | Iteration

fun run ::
  "('m, 'r) Collaborators \<Rightarrow> Flags \<Rightarrow> 'r event list \<Rightarrow> 'm ReferenceLineProvider \<times> nat \<Rightarrow>
   ('m ReferenceLineProvider \<times> nat) option" where
  "run env flags [] (st, n) = Some (st, n)"
| "run env flags (Routing routing # evs) (st, n) =
     run env flags evs (snd (UpdateRoutingResponse env routing st), n)"
| "run env flags (Vehicle vs # evs) (st, n) = run env flags evs (UpdateVehicleState vs st, n)"
| "run env flags (Iteration # evs) (st, n) =
     (case GenerateThread_iteration env flags st of
        None \<Rightarrow> None
      | Some (published, st') \<Rightarrow> run env flags evs (st', if published then Suc n else n))"

section \<open>The consumer: GetReferenceLines\<close>

text \<open>
  Lines 183 to 199. With the worker thread enabled the call waits until the snapshot is not
  empty and then \<^verbatim>\<open>assign\<close>s the snapshot to the caller's lists, replacing what they held.
  With the worker thread disabled it passes the caller's lists on to
  \<^verbatim>\<open>CreateReferenceLineFromRouting\<close>. \<open>None\<close>: the call gives no result in this state (it
  waits for a publication, or a validation of the run is undefined).
\<close>

definition GetReferenceLines ::
  "('m, 'r) Collaborators \<Rightarrow> Flags \<Rightarrow> 'm ReferenceLineProvider \<Rightarrow>
   ReferenceLine list \<times> RouteSegments list \<Rightarrow>
   (bool \<times> (ReferenceLine list \<times> RouteSegments list) \<times> 'm ReferenceLineProvider) option" where
  "GetReferenceLines env flags st out =
     (if FLAGS_enable_reference_line_provider_thread flags
      then (if reference_lines st \<noteq> []
            then Some (True, (reference_lines st, route_segments st), st)
            else None)
      else CreateReferenceLineFromRouting env flags st out)"

section \<open>Concrete inputs used to exercise the theorems\<close>

definition flags0 :: Flags where
  "flags0 = \<lparr>FLAGS_reckless_change_lane = False, FLAGS_min_length_for_lane_change = 10,
     FLAGS_prioritize_change_lane = True, FLAGS_enable_smooth_reference_line = True,
     FLAGS_look_forward_time_sec = 8, FLAGS_look_forward_min_distance = 100,
     FLAGS_look_forward_distance = 250, FLAGS_look_backward_distance = 30,
     FLAGS_enable_reference_line_provider_thread = True\<rparr>"

definition origin :: Vec2d where
  "origin = \<lparr>vec_x = 0, vec_y = 0\<rparr>"

definition point34 :: Vec2d where
  "point34 = \<lparr>vec_x = 3, vec_y = 4\<rparr>"

text \<open>A segment the vehicle is on, with lateral offset 0.1 everywhere.\<close>

definition seg_on :: RouteSegments where
  "seg_on = \<lparr>Id_seg = ''lane_a'', IsOnSegment = True,
     GetProjection = (\<lambda>p. Some (vec_x p, 0.1))\<rparr>"

text \<open>A neighbour segment the vehicle is not on.\<close>

definition seg_off :: RouteSegments where
  "seg_off = \<lparr>Id_seg = ''lane_b'', IsOnSegment = False,
     GetProjection = (\<lambda>p. Some (vec_x p, 3.5))\<rparr>"

text \<open>A segment the vehicle is on, onto which no point projects.\<close>

definition seg_noproj :: RouteSegments where
  "seg_noproj = \<lparr>Id_seg = ''lane_c'', IsOnSegment = True,
     GetProjection = (\<lambda>p. None)\<rparr>"

definition hist_a :: history where
  "hist_a = Map.empty(''lane_a'' \<mapsto> \<lparr>min_l = 0.2, last_point = origin, accumulate_s = 1\<rparr>)"

text \<open>A second segment the vehicle is on.\<close>

definition seg_on2 :: RouteSegments where
  "seg_on2 = \<lparr>Id_seg = ''lane_d'', IsOnSegment = True,
     GetProjection = (\<lambda>p. Some (vec_x p, 0.3))\<rparr>"

text \<open>A second neighbour segment the vehicle is not on.\<close>

definition seg_off2 :: RouteSegments where
  "seg_off2 = \<lparr>Id_seg = ''lane_e'', IsOnSegment = False,
     GetProjection = (\<lambda>p. Some (vec_x p, 3.4))\<rparr>"

text \<open>Lines of length 12: on the x axis, and one, five and six units beside it.\<close>

definition line_flat :: ReferenceLine where
  "line_flat = \<lparr>Length = 12, GetReferencePoint = (\<lambda>s. \<lparr>vec_x = s, vec_y = 0\<rparr>)\<rparr>"

definition line_near :: ReferenceLine where
  "line_near = \<lparr>Length = 12, GetReferencePoint = (\<lambda>s. \<lparr>vec_x = s, vec_y = 1\<rparr>)\<rparr>"

definition line_edge :: ReferenceLine where
  "line_edge = \<lparr>Length = 12, GetReferencePoint = (\<lambda>s. \<lparr>vec_x = s, vec_y = 5\<rparr>)\<rparr>"

definition line_far :: ReferenceLine where
  "line_far = \<lparr>Length = 12, GetReferencePoint = (\<lambda>s. \<lparr>vec_x = s, vec_y = 6\<rparr>)\<rparr>"

text \<open>
  A map whose state is the number of the active routing and the answer of
  \<^verbatim>\<open>IsSameRouting\<close>. It rejects routing 0. Routing 1 has the candidates
  \<open>[seg_off, seg_on]\<close>, routing 2 the single candidate \<open>[seg_off]\<close>, routing 3 the
  candidates \<open>[seg_off, seg_noproj, seg_on]\<close>, routing 4 the candidates
  \<open>[seg_on, seg_off2, seg_off]\<close>; with any other routing the map fails to give
  segments. The raw line of every segment lies on the x axis. The smoother returns
  \<open>line_near\<close> for the segments \<open>lane_a\<close> and \<open>lane_e\<close>, \<open>line_far\<close> for
  \<open>lane_b\<close> and fails otherwise; it tells them apart by the length the raw line is
  given here.
\<close>

definition raw_of :: "RouteSegments \<Rightarrow> ReferenceLine" where
  "raw_of seg =
     \<lparr>Length = (if Id_seg seg = ''lane_a'' \<or> Id_seg seg = ''lane_e'' then 12
                else if Id_seg seg = ''lane_b'' then 11 else 10),
      GetReferencePoint = (\<lambda>s. \<lparr>vec_x = s, vec_y = 0\<rparr>)\<rparr>"

definition env0 :: "(nat \<times> bool, nat) Collaborators" where
  "env0 =
     \<lparr>pnc_UpdateRoutingResponse =
        (\<lambda>m routing. if routing = 0 then (False, m) else (True, (routing, routing = fst m))),
      pnc_IsSameRouting = snd,
      pnc_GetRouteSegments =
        (\<lambda>m vs backward forward.
           if fst m = 1 then Some [seg_off, seg_on]
           else if fst m = 2 then Some [seg_off]
           else if fst m = 3 then Some [seg_off, seg_noproj, seg_on]
           else if fst m = 4 then Some [seg_on, seg_off2, seg_off]
           else None),
      CreatePathFromLaneSegments = raw_of,
      smoother_Smooth =
        (\<lambda>line. if Length line = 12 then Some line_near
                else if Length line = 11 then Some line_far else None)\<rparr>"

definition vehicle0 :: VehicleState where
  "vehicle0 = \<lparr>vs_x = 3, vs_y = 4, linear_velocity = 10\<rparr>"

text \<open>A provider with routing \<open>k\<close> active, the history \<open>hist_a\<close> and nothing published.\<close>

definition provider0 :: "nat \<Rightarrow> (nat \<times> bool) ReferenceLineProvider" where
  "provider0 k =
     \<lparr>pnc_map = (k, False), vehicle_state = vehicle0, segment_history = hist_a,
      has_routing = (k \<noteq> 0), reference_lines = [], route_segments = []\<rparr>"

text \<open>The table after one more observation of \<open>lane_a\<close> at \<open>point34\<close>.\<close>

definition hist_a' :: history where
  "hist_a' = Map.empty(''lane_a'' \<mapsto> \<lparr>min_l = 0.1, last_point = point34, accumulate_s = 6\<rparr>)"

text \<open>
  The table after a first observation of \<open>lane_a\<close> at \<open>point34\<close>, the provider after
  routing 4 was accepted, and the provider after its first publication.
\<close>

definition hist_first :: history where
  "hist_first = Map.empty(''lane_a'' \<mapsto> \<lparr>min_l = 0.1, last_point = point34, accumulate_s = 0\<rparr>)"

definition provider_published :: "(nat \<times> bool) ReferenceLineProvider" where
  "provider_published =
     \<lparr>pnc_map = (4, False), vehicle_state = vehicle0, segment_history = hist_first,
      has_routing = True, reference_lines = [line_near], route_segments = [seg_on]\<rparr>"

definition provider_routed :: "(nat \<times> bool) ReferenceLineProvider" where
  "provider_routed =
     \<lparr>pnc_map = (4, False), vehicle_state = vehicle0, segment_history = Map.empty,
      has_routing = True, reference_lines = [], route_segments = []\<rparr>"

text \<open>
  A minimum lane change length of 3, a segment the vehicle is on with lateral offset one
  eighth, and a table whose entry for it has accumulated the double below 1.8 that the
  product of \<^verbatim>\<open>0.6\<close> and 3 rounds to.
\<close>

definition flags3 :: Flags where
  "flags3 = flags0\<lparr>FLAGS_min_length_for_lane_change := 3\<rparr>"

definition seg_mid :: RouteSegments where
  "seg_mid = \<lparr>Id_seg = ''lane_m'', IsOnSegment = True,
     GetProjection = (\<lambda>p. Some (vec_x p, 1 / 8))\<rparr>"

definition hist_edge :: history where
  "hist_edge = Map.empty(''lane_m'' \<mapsto>
     \<lparr>min_l = 1 / 8, last_point = point34,
      accumulate_s = 8106479329266892 / 4503599627370496\<rparr>)"

text \<open>A line longer than the largest value of an \<^verbatim>\<open>int\<close>.\<close>

definition line_overlong :: ReferenceLine where
  "line_overlong = \<lparr>Length = 3000000000, GetReferencePoint = (\<lambda>s. \<lparr>vec_x = s, vec_y = 0\<rparr>)\<rparr>"

text \<open>The flags with the worker thread disabled.\<close>

definition flags_sync :: Flags where
  "flags_sync = flags0\<lparr>FLAGS_enable_reference_line_provider_thread := False\<rparr>"

section \<open>Properties of the arithmetic on doubles\<close>

lemma pow2_powr: "pow2 e = 2 powr (of_int e)"
proof (cases "0 \<le> e")
  case True
  then have "(2::real) powr (of_int e) = 2 powr (real (nat e))" by simp
  also have "\<dots> = 2 ^ nat e" by (simp add: powr_realpow)
  finally show ?thesis using True by (simp add: pow2_def)
next
  case False
  then have "(2::real) powr (of_int e) = 2 powr (- real (nat (- e)))" by simp
  also have "\<dots> = 1 / 2 ^ nat (- e)" by (simp add: powr_minus powr_realpow divide_inverse)
  finally show ?thesis using False by (simp add: pow2_def)
qed

lemma pow2_less_iff: "pow2 a < pow2 b \<longleftrightarrow> a < b"
  by (simp add: pow2_powr)

lemma exponent_search_binade:
  "pow2 e \<le> a \<Longrightarrow> a < pow2 (e + 1) \<Longrightarrow> e0 \<le> e \<Longrightarrow> nat (e - e0) \<le> n \<Longrightarrow>
   exponent_search n e0 a = e"
proof (induction n arbitrary: e0)
  case 0
  then show ?case by simp
next
  case (Suc n)
  show ?case
  proof (cases "a < pow2 (e0 + 1)")
    case True
    then have "pow2 e < pow2 (e0 + 1)" using Suc.prems(1) by linarith
    then have "e = e0" using Suc.prems(3) by (simp add: pow2_less_iff)
    then show ?thesis using True by simp
  next
    case False
    then have "pow2 (e0 + 1) < pow2 (e + 1)" using Suc.prems(2) by linarith
    then have "e0 + 1 \<le> e" by (simp add: pow2_less_iff)
    then show ?thesis using False Suc.IH [of "e0 + 1"] Suc.prems by simp
  qed
qed

text \<open>
  In the binade of exponent \<open>e\<close> a real is rounded to a multiple of \<open>pow2 (e - 52)\<close>.
\<close>

lemma round_double_binade:
  assumes "- 1022 \<le> e" and "e \<le> 1023" and "pow2 e \<le> \<bar>x\<bar>" and "\<bar>x\<bar> < pow2 (e + 1)"
  shows "round_double x = pow2 (e - 52) * of_int (round_half_even (x / pow2 (e - 52)))"
proof -
  have "double_exponent x = e"
    unfolding double_exponent_def
    using assms by (intro exponent_search_binade) auto
  then show ?thesis by (simp add: round_double_def Let_def)
qed

lemma round_double_zero: "round_double 0 = 0"
  by (simp add: round_double_def round_half_even_def)

text \<open>
  Known doubles: one tenth, one fifth, their sum (the double above three tenths), six
  tenths, and the products of the double six tenths with 3 and with 10. The product with 3
  is \<open>8106479329266892 / 2^52\<close>, written in lowest terms.
\<close>

lemma double_0_1: "round_double (1 / 10) = 3602879701896397 / 36028797018963968"
  using round_double_binade [of "-4" "1 / 10"]
  by (simp add: pow2_def round_half_even_def Let_def)

lemma double_0_2: "round_double (1 / 5) = 3602879701896397 / 18014398509481984"
  using round_double_binade [of "-3" "1 / 5"]
  by (simp add: pow2_def round_half_even_def Let_def)

lemma double_0_1_plus_0_2:
  "round_double (round_double (1 / 10) + round_double (1 / 5))
     = 1351079888211149 / 4503599627370496"
  using round_double_binade
    [of "-2" "3602879701896397 / 36028797018963968 + 3602879701896397 / 18014398509481984"]
  by (simp add: double_0_1 double_0_2 pow2_def round_half_even_def Let_def)

lemma double_0_6: "round_double (3 / 5) = 5404319552844595 / 9007199254740992"
  using round_double_binade [of "-1" "3 / 5"]
  by (simp add: pow2_def round_half_even_def Let_def)

lemma double_0_6_times_3:
  "round_double (round_double (3 / 5) * 3) = 2026619832316723 / 1125899906842624"
  using round_double_binade [of 0 "5404319552844595 / 9007199254740992 * 3"]
  by (simp add: double_0_6 pow2_def round_half_even_def Let_def)

lemma double_0_6_times_10: "round_double (round_double (3 / 5) * 10) = 6"
  using round_double_binade [of 2 "5404319552844595 / 9007199254740992 * 10"]
  by (simp add: double_0_6 pow2_def round_half_even_def Let_def)

lemma double_6: "round_double 6 = 6"
  using round_double_binade [of 2 6]
  by (simp add: pow2_def round_half_even_def Let_def)

lemma double_1: "round_double 1 = 1"
  using round_double_binade [of 0 1]
  by (simp add: pow2_def round_half_even_def Let_def)

lemma double_5: "round_double 5 = 5"
  using round_double_binade [of 2 5]
  by (simp add: pow2_def round_half_even_def Let_def)

lemma double_negative:
  "round_double (- 1) = - 1" "round_double (- 3) = - 3" "round_double (- 4) = - 4"
  "round_double (- 5) = - 5" "round_double (- 6) = - 6"
  using round_double_binade [of 0 "- 1"] round_double_binade [of 1 "- 3"]
    round_double_binade [of 2 "- 4"] round_double_binade [of 2 "- 5"]
    round_double_binade [of 2 "- 6"]
  by (simp_all add: pow2_def round_half_even_def Let_def)

lemmas double_small = round_double_zero double_1 double_5 double_6 double_negative

lemma double_5_5: "round_double (11 / 2) = 11 / 2"
  using round_double_binade [of 2 "11 / 2"]
  by (simp add: pow2_def round_half_even_def Let_def)

lemma double_edge:
  "round_double (2026619832316723 / 1125899906842624) = 2026619832316723 / 1125899906842624"
  using round_double_binade [of 0 "2026619832316723 / 1125899906842624"]
  by (simp add: pow2_def round_half_even_def Let_def)

section \<open>Properties of IsAllowChangeLane\<close>

lemma sqrt_25: "sqrt 25 = 5"
  using real_sqrt_abs [of 5] by simp

lemma DistanceXY_self: "DistanceXY a a = 0"
  by (simp add: DistanceXY_def round_double_zero)

text \<open>
  C7: with reckless mode off, a list of at most one candidate segment is never allowed a
  lane change; with reckless mode on, every call answers true, whatever the list. In both
  cases the history table is left as it was.
\<close>

theorem C7_size_le_one_or_reckless:
  "(\<not> FLAGS_reckless_change_lane flags \<and> length segs \<le> 1 \<longrightarrow>
      IsAllowChangeLane flags point segs hist = (False, hist)) \<and>
   (FLAGS_reckless_change_lane flags \<longrightarrow>
      IsAllowChangeLane flags point segs hist = (True, hist))"
  by (simp add: IsAllowChangeLane_def)

theorem C7_size_le_one_or_reckless_witness:
  "\<not> FLAGS_reckless_change_lane flags0 \<and> length [seg_on] \<le> 1 \<and>
   IsAllowChangeLane flags0 point34 [seg_on] hist_a = (False, hist_a) \<and>
   FLAGS_reckless_change_lane (flags0\<lparr>FLAGS_reckless_change_lane := True\<rparr>) \<and>
   IsAllowChangeLane (flags0\<lparr>FLAGS_reckless_change_lane := True\<rparr>) point34 [] hist_a
     = (True, hist_a)"
  using C7_size_le_one_or_reckless [of flags0 "[seg_on]" point34 hist_a]
    C7_size_le_one_or_reckless [of "flags0\<lparr>FLAGS_reckless_change_lane := True\<rparr>" "[]" point34 hist_a]
  by (simp add: flags0_def)

text \<open>
  C8: a call that reaches the history lookup (reckless mode off, at least two segments, a
  forward segment found, the projection succeeded with lateral offset \<open>l\<close>) and finds
  no entry for the forward segment's id creates the entry with \<open>min_l = |l|\<close>,
  \<open>last_point = point\<close>, \<open>accumulate_s = 0\<close>, touches no other entry and answers false.
\<close>

theorem C8_first_observation:
  assumes "\<not> FLAGS_reckless_change_lane flags"
    and "2 \<le> length segs"
    and "forward_segment segs = Some fwd"
    and "GetProjection fwd point = Some (s, l)"
    and "hist (Id_seg fwd) = None"
  shows "IsAllowChangeLane flags point segs hist =
    (False, hist(Id_seg fwd \<mapsto> \<lparr>min_l = \<bar>l\<bar>, last_point = point, accumulate_s = 0\<rparr>))"
  using assms by (simp add: IsAllowChangeLane_def)

theorem C8_first_observation_witness:
  "IsAllowChangeLane flags0 point34 [seg_off, seg_on] Map.empty =
    (False, Map.empty(''lane_a'' \<mapsto> \<lparr>min_l = 0.1, last_point = point34, accumulate_s = 0\<rparr>))"
  using C8_first_observation [of flags0 "[seg_off, seg_on]" seg_on point34 3 "0.1" Map.empty]
  by (simp add: flags0_def seg_on_def seg_off_def point34_def)

text \<open>
  C10: when the projection of the position onto the forward segment fails, the call
  answers false and returns the history table it was given: no entry is created and no
  entry is changed.
\<close>

theorem C10_projection_failure_frame:
  assumes "\<not> FLAGS_reckless_change_lane flags"
    and "2 \<le> length segs"
    and "forward_segment segs = Some fwd"
    and "GetProjection fwd point = None"
  shows "IsAllowChangeLane flags point segs hist = (False, hist)"
  using assms by (simp add: IsAllowChangeLane_def)

theorem C10_projection_failure_frame_witness:
  "IsAllowChangeLane flags0 point34 [seg_off, seg_noproj] hist_a = (False, hist_a) \<and>
   hist_a ''lane_c'' = None"
  using C10_projection_failure_frame [of flags0 "[seg_off, seg_noproj]" seg_noproj point34 hist_a]
  by (simp add: flags0_def seg_noproj_def seg_off_def hist_a_def)

text \<open>
  C1: a call that reaches the history lookup and finds the entry \<open>h\<close> of the forward
  segment's id replaces it: the minimum lateral offset becomes \<open>min (min_l h) |l|\<close>, the
  planar distance from the last position to the position is added to the accumulated
  distance, as a sum of doubles, and the last position becomes the position. The answer is
  true exactly when the new minimum is below 0.25 and the new accumulated distance is at
  least the product, as doubles, of \<^verbatim>\<open>0.6\<close> and the configured minimum lane change length
  (the bound included).
\<close>

theorem C1_subsequent_observation:
  assumes "\<not> FLAGS_reckless_change_lane flags"
    and "2 \<le> length segs"
    and "forward_segment segs = Some fwd"
    and "GetProjection fwd point = Some (s, l)"
    and "hist (Id_seg fwd) = Some h"
  shows "IsAllowChangeLane flags point segs hist =
    (min (min_l h) \<bar>l\<bar> < 0.25 \<and>
     round_double (accumulate_s h + DistanceXY (last_point h) point)
       \<ge> round_double (round_double 0.6 * FLAGS_min_length_for_lane_change flags),
     hist(Id_seg fwd \<mapsto>
       \<lparr>min_l = min (min_l h) \<bar>l\<bar>, last_point = point,
        accumulate_s = round_double (accumulate_s h + DistanceXY (last_point h) point)\<rparr>))"
  using assms
  by (simp add: IsAllowChangeLane_def Let_def kChangeLaneMinL_def kChangeLaneMinLengthFactor_def)

text \<open>
  The bound is included: with minimum length 10 the product is the double 6; an entry with
  accumulated distance 1 and a step of length 5 reaches exactly 6 and is allowed, an entry
  with accumulated distance 0.5 reaches 5.5 and is not.
\<close>

theorem C1_subsequent_observation_witness:
  "IsAllowChangeLane flags0 point34 [seg_off, seg_on] hist_a =
     (True, Map.empty(''lane_a'' \<mapsto> \<lparr>min_l = 0.1, last_point = point34, accumulate_s = 6\<rparr>)) \<and>
   IsAllowChangeLane flags0 point34 [seg_off, seg_on]
       (Map.empty(''lane_a'' \<mapsto> \<lparr>min_l = 0.2, last_point = origin, accumulate_s = 0.5\<rparr>)) =
     (False, Map.empty(''lane_a'' \<mapsto> \<lparr>min_l = 0.1, last_point = point34, accumulate_s = 5.5\<rparr>))"
  using C1_subsequent_observation [of flags0 "[seg_off, seg_on]" seg_on point34 3 "0.1" hist_a
      "\<lparr>min_l = 0.2, last_point = origin, accumulate_s = 1\<rparr>"]
    C1_subsequent_observation [of flags0 "[seg_off, seg_on]" seg_on point34 3 "0.1"
      "Map.empty(''lane_a'' \<mapsto> \<lparr>min_l = 0.2, last_point = origin, accumulate_s = 0.5\<rparr>)"
      "\<lparr>min_l = 0.2, last_point = origin, accumulate_s = 0.5\<rparr>"]
  by (simp add: flags0_def seg_on_def seg_off_def point34_def origin_def hist_a_def
      DistanceXY_def sqrt_25 double_0_6_times_10 double_small double_5_5)

text \<open>
  With exact arithmetic in place of the doubles the property is lost. With minimum length
  3 the product of \<^verbatim>\<open>0.6\<close> and 3 is the double \<open>8106479329266892 / 2^52\<close>, which is below
  1.8. An entry that has accumulated that double, observed again at its last position, is
  allowed, although its accumulated distance is less than six tenths of the minimum length.
\<close>

theorem C1_exact_bound_counterexample:
  "fst (IsAllowChangeLane flags3 point34 [seg_off, seg_mid] hist_edge) \<and>
   hist_edge ''lane_m'' =
     Some \<lparr>min_l = 1 / 8, last_point = point34,
           accumulate_s = 8106479329266892 / 4503599627370496\<rparr> \<and>
   \<not> (min (1 / 8) \<bar>1 / 8\<bar> < (0.25 :: real) \<and>
      8106479329266892 / 4503599627370496 + DistanceXY point34 point34
        \<ge> 0.6 * FLAGS_min_length_for_lane_change flags3)"
  by (simp add: IsAllowChangeLane_def Let_def kChangeLaneMinL_def kChangeLaneMinLengthFactor_def
      flags3_def flags0_def seg_off_def seg_mid_def hist_edge_def DistanceXY_self
      double_0_6_times_3 double_edge)

section \<open>Properties of PrioritzeChangeLane\<close>

lemma PrioritzeChangeLane_from_all_on:
  "\<forall>seg \<in> set rest. IsOnSegment seg \<Longrightarrow> PrioritzeChangeLane_from visited rest = visited @ rest"
  by (induction rest arbitrary: visited) auto

lemma PrioritzeChangeLane_from_first_off:
  "\<forall>p \<in> set pre. IsOnSegment p \<Longrightarrow> \<not> IsOnSegment seg \<Longrightarrow>
   PrioritzeChangeLane_from visited (pre @ seg # post) = seg # visited @ pre @ post"
  by (induction pre arbitrary: visited) auto

lemma first_off_split:
  assumes "\<not> (\<forall>seg \<in> set segs. IsOnSegment seg)"
  shows "\<exists>pre seg post. segs = pre @ seg # post \<and> (\<forall>p \<in> set pre. IsOnSegment p) \<and>
           \<not> IsOnSegment seg"
proof -
  from assms have "\<exists>seg \<in> set segs. \<not> IsOnSegment seg" by blast
  then obtain pre seg post where
    "segs = pre @ seg # post" "\<not> IsOnSegment seg" "\<forall>p \<in> set pre. \<not> \<not> IsOnSegment p"
    using split_list_first_prop [of segs "\<lambda>seg. \<not> IsOnSegment seg"] by blast
  then show ?thesis by auto
qed

lemma forward_segment_skip:
  "\<not> IsOnSegment seg \<Longrightarrow> forward_segment (pre @ seg # post) = forward_segment (pre @ post)"
  by (induction pre) auto

lemma forward_segment_PrioritzeChangeLane:
  "forward_segment (PrioritzeChangeLane segs) = forward_segment segs"
proof (cases "\<forall>seg \<in> set segs. IsOnSegment seg")
  case True
  then show ?thesis
    by (simp add: PrioritzeChangeLane_def PrioritzeChangeLane_from_all_on)
next
  case False
  then obtain pre seg post where
    s: "segs = pre @ seg # post" and on: "\<forall>p \<in> set pre. IsOnSegment p" and off: "\<not> IsOnSegment seg"
    using first_off_split by blast
  have "PrioritzeChangeLane segs = seg # pre @ post"
    using PrioritzeChangeLane_from_first_off [OF on off, of "[]" post]
    by (simp add: PrioritzeChangeLane_def s)
  then show ?thesis using off s forward_segment_skip [OF off, of pre post] by simp
qed

lemma length_PrioritzeChangeLane: "length (PrioritzeChangeLane segs) = length segs"
proof (cases "\<forall>seg \<in> set segs. IsOnSegment seg")
  case True
  then show ?thesis
    by (simp add: PrioritzeChangeLane_def PrioritzeChangeLane_from_all_on)
next
  case False
  then obtain pre seg post where
    s: "segs = pre @ seg # post" and on: "\<forall>p \<in> set pre. IsOnSegment p" and off: "\<not> IsOnSegment seg"
    using first_off_split by blast
  have "PrioritzeChangeLane segs = seg # pre @ post"
    using PrioritzeChangeLane_from_first_off [OF on off, of "[]" post]
    by (simp add: PrioritzeChangeLane_def s)
  then show ?thesis using s by simp
qed

lemma IsAllowChangeLane_PrioritzeChangeLane:
  "IsAllowChangeLane flags point (PrioritzeChangeLane segs) hist =
   IsAllowChangeLane flags point segs hist"
  by (simp add: IsAllowChangeLane_def forward_segment_PrioritzeChangeLane
      length_PrioritzeChangeLane)

text \<open>
  C4: the prioritizer keeps the multiset of segments. When every segment is one the
  vehicle is on, the list is returned as it was. Otherwise the list splits at the first
  segment the vehicle is not on, \<open>segs = pre @ seg # post\<close>, and the result is
  \<open>seg # pre @ post\<close>: that one element has moved to the front and all the others keep
  their order.
\<close>

theorem C4_prioritize:
  "mset (PrioritzeChangeLane segs) = mset segs \<and>
   ((\<forall>seg \<in> set segs. IsOnSegment seg) \<longrightarrow> PrioritzeChangeLane segs = segs) \<and>
   (\<not> (\<forall>seg \<in> set segs. IsOnSegment seg) \<longrightarrow>
      (\<exists>pre seg post. segs = pre @ seg # post \<and> (\<forall>p \<in> set pre. IsOnSegment p) \<and>
         \<not> IsOnSegment seg \<and> PrioritzeChangeLane segs = seg # pre @ post))"
proof (cases "\<forall>seg \<in> set segs. IsOnSegment seg")
  case True
  then show ?thesis
    by (simp add: PrioritzeChangeLane_def PrioritzeChangeLane_from_all_on)
next
  case False
  then obtain pre seg post where
    s: "segs = pre @ seg # post" and on: "\<forall>p \<in> set pre. IsOnSegment p" and off: "\<not> IsOnSegment seg"
    using first_off_split by blast
  have res: "PrioritzeChangeLane segs = seg # pre @ post"
    using PrioritzeChangeLane_from_first_off [OF on off, of "[]" post]
    by (simp add: PrioritzeChangeLane_def s)
  have m: "mset (PrioritzeChangeLane segs) = mset segs"
    unfolding res by (simp add: s)
  show ?thesis using False m s on off res by blast
qed

theorem C4_prioritize_witness:
  "PrioritzeChangeLane [seg_on, seg_on2, seg_off, seg_noproj, seg_off]
     = [seg_off, seg_on, seg_on2, seg_noproj, seg_off] \<and>
   mset (PrioritzeChangeLane [seg_on, seg_on2, seg_off, seg_noproj, seg_off])
     = mset [seg_on, seg_on2, seg_off, seg_noproj, seg_off] \<and>
   PrioritzeChangeLane [seg_on, seg_noproj] = [seg_on, seg_noproj]"
  using C4_prioritize [of "[seg_on, seg_on2, seg_off, seg_noproj, seg_off]"]
    C4_prioritize [of "[seg_on, seg_noproj]"]
  by (simp add: PrioritzeChangeLane_def seg_on_def seg_on2_def seg_off_def seg_noproj_def)

section \<open>Properties of UpdateRoutingResponse\<close>

text \<open>
  C6: when the map rejects the routing response, the call returns false and the
  provider's own members are as before (the history table, the routing flag, the vehicle
  state and the published snapshot; only the map object is as the map left it). When the
  map accepts it, the call returns true, the routing flag is set, and the history table is
  emptied when the map reports a routing different from the previous one and kept when it
  reports the same routing.
\<close>

theorem C6_update_routing_response:
  "(\<not> fst (pnc_UpdateRoutingResponse env (pnc_map st) routing) \<longrightarrow>
      \<not> fst (UpdateRoutingResponse env routing st) \<and>
      segment_history (snd (UpdateRoutingResponse env routing st)) = segment_history st \<and>
      has_routing (snd (UpdateRoutingResponse env routing st)) = has_routing st \<and>
      vehicle_state (snd (UpdateRoutingResponse env routing st)) = vehicle_state st \<and>
      reference_lines (snd (UpdateRoutingResponse env routing st)) = reference_lines st \<and>
      route_segments (snd (UpdateRoutingResponse env routing st)) = route_segments st) \<and>
   (fst (pnc_UpdateRoutingResponse env (pnc_map st) routing) \<longrightarrow>
      fst (UpdateRoutingResponse env routing st) \<and>
      has_routing (snd (UpdateRoutingResponse env routing st)) \<and>
      segment_history (snd (UpdateRoutingResponse env routing st)) =
        (if pnc_IsSameRouting env (snd (pnc_UpdateRoutingResponse env (pnc_map st) routing))
         then segment_history st else Map.empty))"
  by (cases "pnc_UpdateRoutingResponse env (pnc_map st) routing")
    (auto simp: UpdateRoutingResponse_def)

text \<open>
  Routing 0 is rejected with no routing received yet: the table and the flag stay. Routing
  2 replaces routing 1: the table is emptied. Routing 1 again: the table is kept.
\<close>

theorem C6_update_routing_response_witness:
  "\<not> fst (UpdateRoutingResponse env0 0 (provider0 0)) \<and>
   segment_history (snd (UpdateRoutingResponse env0 0 (provider0 0))) = hist_a \<and>
   \<not> has_routing (snd (UpdateRoutingResponse env0 0 (provider0 0))) \<and>
   fst (UpdateRoutingResponse env0 2 (provider0 1)) \<and>
   has_routing (snd (UpdateRoutingResponse env0 2 (provider0 1))) \<and>
   segment_history (snd (UpdateRoutingResponse env0 2 (provider0 1))) = Map.empty \<and>
   fst (UpdateRoutingResponse env0 1 (provider0 1)) \<and>
   segment_history (snd (UpdateRoutingResponse env0 1 (provider0 1))) = hist_a"
  using C6_update_routing_response [of env0 "provider0 0" 0]
    C6_update_routing_response [of env0 "provider0 1" 2]
    C6_update_routing_response [of env0 "provider0 1" 1]
  by (simp add: env0_def provider0_def)

section \<open>Properties of IsReferenceLineSmoothValid\<close>

lemma sqrt_36: "sqrt 36 = 6"
  using real_sqrt_abs [of 6] by simp

lemma DistanceTo_self: "DistanceTo a a = 0"
  by (simp add: DistanceTo_def round_double_zero)

lemma IsReferenceLineSmoothValid_from_samples:
  "Length raw \<le> 2147483645 \<Longrightarrow> s = 5 * int k \<Longrightarrow>
   IsReferenceLineSmoothValid_from raw smoothed s =
     Some (\<forall>j\<ge>k. 5 * real j < Length raw \<longrightarrow>
       DistanceTo (GetReferencePoint raw (5 * real j)) (GetReferencePoint smoothed (5 * real j)) \<le> 5)"
proof (induction raw smoothed s arbitrary: k rule: IsReferenceLineSmoothValid_from.induct)
  case (1 raw smoothed s)
  let ?d = "\<lambda>j. DistanceTo (GetReferencePoint raw (5 * real j)) (GetReferencePoint smoothed (5 * real j))"
  have s_real: "real_of_int s = 5 * real k"
    using "1.prems"(2) by simp
  show ?case
  proof (cases "real_of_int s < Length raw")
    case False
    have "\<And>j. k \<le> j \<Longrightarrow> \<not> 5 * real j < Length raw"
    proof -
      fix j :: nat
      assume "k \<le> j"
      then have "5 * real k \<le> 5 * real j" by simp
      then show "\<not> 5 * real j < Length raw" using False s_real by linarith
    qed
    then have "\<forall>j\<ge>k. 5 * real j < Length raw \<longrightarrow> ?d j \<le> 5" by blast
    moreover have "IsReferenceLineSmoothValid_from raw smoothed s = Some True"
      using False by (subst IsReferenceLineSmoothValid_from.simps) simp
    ultimately show ?thesis by simp
  next
    case True
    show ?thesis
    proof (cases "?d k > 5")
      case far: True
      have "IsReferenceLineSmoothValid_from raw smoothed s = Some False"
        using True far s_real
        by (subst IsReferenceLineSmoothValid_from.simps)
          (simp add: Let_def kReferenceLineDiffCheckResolution_def)
      moreover have "\<not> (\<forall>j\<ge>k. 5 * real j < Length raw \<longrightarrow> ?d j \<le> 5)"
        using True far s_real by (metis order_refl not_le)
      ultimately show ?thesis by simp
    next
      case near: False
      have "5 * real k < 2147483645"
        using True s_real "1.prems"(1) by linarith
      then have "real k < 429496729" by simp
      then have "k < 429496729" by linarith
      then have in_range: "\<not> s + 5 > INT_MAX"
        using "1.prems"(2) by (simp add: INT_MAX_def)
      have next_s: "s + 5 = 5 * int (Suc k)"
        using "1.prems"(2) by simp
      have step: "IsReferenceLineSmoothValid_from raw smoothed s =
          IsReferenceLineSmoothValid_from raw smoothed (s + 5)"
        using True near in_range s_real
        by (subst IsReferenceLineSmoothValid_from.simps)
          (simp add: Let_def kReferenceLineDiffCheckResolution_def)
      have near': "\<not> DistanceTo (GetReferencePoint raw (real_of_int s))
            (GetReferencePoint smoothed (real_of_int s)) > kReferenceLineDiffCheckResolution"
        using near s_real by (simp add: kReferenceLineDiffCheckResolution_def)
      have IH: "IsReferenceLineSmoothValid_from raw smoothed (s + 5) =
          Some (\<forall>j\<ge>Suc k. 5 * real j < Length raw \<longrightarrow> ?d j \<le> 5)"
        using "1.IH" [OF True refl refl refl near' in_range "1.prems"(1) next_s] .
      have "(\<forall>j\<ge>k. 5 * real j < Length raw \<longrightarrow> ?d j \<le> 5) \<longleftrightarrow>
            (\<forall>j\<ge>Suc k. 5 * real j < Length raw \<longrightarrow> ?d j \<le> 5)"
      proof
        assume "\<forall>j\<ge>k. 5 * real j < Length raw \<longrightarrow> ?d j \<le> 5"
        then show "\<forall>j\<ge>Suc k. 5 * real j < Length raw \<longrightarrow> ?d j \<le> 5"
          by (meson Suc_leD)
      next
        assume a: "\<forall>j\<ge>Suc k. 5 * real j < Length raw \<longrightarrow> ?d j \<le> 5"
        show "\<forall>j\<ge>k. 5 * real j < Length raw \<longrightarrow> ?d j \<le> 5"
        proof (intro allI impI)
          fix j assume "k \<le> j" "5 * real j < Length raw"
          then show "?d j \<le> 5"
            using a near by (cases "j = k") (auto simp: Suc_le_eq)
        qed
      qed
      then show ?thesis using step IH by simp
    qed
  qed
qed

text \<open>
  For a raw line whose length is in the range of the loop counter (at most 2147483645, the
  last multiple of 5 an \<^verbatim>\<open>int\<close> holds), the validator returns, and it returns true
  exactly when at every sample \<open>5 * k\<close> below the raw length the smoothed point is at
  most 5 away from the raw point. So a smoothed line equal to the raw line is valid, and a
  smoothed line more than 5 away at some sample is not.
\<close>

lemma IsReferenceLineSmoothValid_in_range:
  assumes "Length raw \<le> 2147483645"
  shows "IsReferenceLineSmoothValid raw smoothed =
      Some (\<forall>k::nat. 5 * real k < Length raw \<longrightarrow>
        DistanceTo (GetReferencePoint raw (5 * real k)) (GetReferencePoint smoothed (5 * real k)) \<le> 5) \<and>
    IsReferenceLineSmoothValid raw raw = Some True \<and>
    ((\<exists>k::nat. 5 * real k < Length raw \<and>
        DistanceTo (GetReferencePoint raw (5 * real k)) (GetReferencePoint smoothed (5 * real k)) > 5)
      \<longrightarrow> IsReferenceLineSmoothValid raw smoothed = Some False)"
proof -
  have gen: "\<And>sm. IsReferenceLineSmoothValid raw sm =
      Some (\<forall>k::nat. 5 * real k < Length raw \<longrightarrow>
        DistanceTo (GetReferencePoint raw (5 * real k)) (GetReferencePoint sm (5 * real k)) \<le> 5)"
    using IsReferenceLineSmoothValid_from_samples [OF assms, of 0 0]
    by (simp add: IsReferenceLineSmoothValid_def)
  have self: "IsReferenceLineSmoothValid raw raw = Some True"
    by (simp add: gen DistanceTo_self)
  have far: "(\<exists>k::nat. 5 * real k < Length raw \<and>
        DistanceTo (GetReferencePoint raw (5 * real k)) (GetReferencePoint smoothed (5 * real k)) > 5)
      \<longrightarrow> IsReferenceLineSmoothValid raw smoothed = Some False"
    unfolding gen by (auto simp: not_le)
  show ?thesis using gen self far by blast
qed

text \<open>
  On a raw line of length 12 the samples are at 0, 5 and 10. A line one unit away is valid,
  a line exactly five units away is valid (the threshold is not exceeded), a line six
  units away is not.
\<close>

lemma IsReferenceLineSmoothValid_examples:
  "Length line_flat \<le> 2147483645 \<and>
   IsReferenceLineSmoothValid line_flat line_near = Some True \<and>
   IsReferenceLineSmoothValid line_flat line_edge = Some True \<and>
   IsReferenceLineSmoothValid line_flat line_flat = Some True \<and>
   IsReferenceLineSmoothValid line_flat line_far = Some False"
  using IsReferenceLineSmoothValid_in_range [of line_flat line_near]
    IsReferenceLineSmoothValid_in_range [of line_flat line_far]
  by (simp add: IsReferenceLineSmoothValid_def IsReferenceLineSmoothValid_from.simps
      line_flat_def line_near_def line_edge_def line_far_def DistanceTo_def
      kReferenceLineDiffCheckResolution_def INT_MAX_def sqrt_25 sqrt_36 double_small)

text \<open>
  Beyond that range the counter fails first: when a line longer than 2147483645 is compared
  with itself, every sample is at distance 0 and the loop goes on until the counter is
  2147483645, where the next step is outside the range of \<^verbatim>\<open>int\<close>.
\<close>

lemma IsReferenceLineSmoothValid_from_overlong:
  "Length raw > 2147483645 \<Longrightarrow> s = 5 * int k \<Longrightarrow> k \<le> 429496729 \<Longrightarrow>
   IsReferenceLineSmoothValid_from raw raw s = None"
proof (induction "429496729 - k" arbitrary: k s)
  case 0
  then have s: "s = 2147483645" by simp
  have "real_of_int s < Length raw" using "0.prems"(1) s by simp
  then show ?case
    using s
    by (subst IsReferenceLineSmoothValid_from.simps)
      (simp add: Let_def DistanceTo_self kReferenceLineDiffCheckResolution_def INT_MAX_def)
next
  case (Suc n)
  then have k: "k < 429496729" by simp
  then have "5 * real k < 2147483645" by simp
  then have below: "real_of_int s < Length raw"
    using Suc.prems(1,2) by simp
  have in_range: "\<not> s + 5 > INT_MAX"
    using k Suc.prems(2) by (simp add: INT_MAX_def)
  have "IsReferenceLineSmoothValid_from raw raw (s + 5) = None"
    using Suc.hyps(1) [of "Suc k" "s + 5"] Suc.hyps(2) Suc.prems k by simp
  then show ?case
    using below in_range
    by (subst IsReferenceLineSmoothValid_from.simps)
      (simp add: Let_def DistanceTo_self kReferenceLineDiffCheckResolution_def)
qed

lemma IsReferenceLineSmoothValid_overlong:
  "Length raw > 2147483645 \<Longrightarrow> IsReferenceLineSmoothValid raw raw = None"
  using IsReferenceLineSmoothValid_from_overlong [of raw 0 0]
  by (simp add: IsReferenceLineSmoothValid_def)

text \<open>
  C3: the validator does not return true for every smoothed line that equals the raw line.
  For the line \<open>line_overlong\<close> of length 3000000000 compared with itself, no sample is
  farther than 5 away, and the validator gives no result: its counter, declared
  \<^verbatim>\<open>int s\<close> where the length and the step are doubles, reaches 2147483645, and the next
  \<^verbatim>\<open>s += 5.0\<close> has no value in \<^verbatim>\<open>int\<close>.
\<close>

theorem C3_validator_overlong:
  "IsReferenceLineSmoothValid line_overlong line_overlong = None"
  by (rule IsReferenceLineSmoothValid_overlong) (simp add: line_overlong_def)

section \<open>Properties of the pipeline\<close>

lemma IsReferenceLineSmoothValid_defined:
  "Length raw \<le> 2147483645 \<Longrightarrow> IsReferenceLineSmoothValid raw smoothed \<noteq> None"
  using IsReferenceLineSmoothValid_from_samples [of raw 0 0 smoothed]
  by (simp add: IsReferenceLineSmoothValid_def)

lemma SmoothReferenceLine_defined:
  "Length (CreatePathFromLaneSegments env lanes) \<le> 2147483645 \<Longrightarrow>
   SmoothReferenceLine env flags lanes \<noteq> None"
proof -
  assume len: "Length (CreatePathFromLaneSegments env lanes) \<le> 2147483645"
  show ?thesis
  proof (cases "smoother_Smooth env (CreatePathFromLaneSegments env lanes)")
    case None
    then show ?thesis by (simp add: SmoothReferenceLine_def Let_def)
  next
    case (Some reference_line)
    obtain b where "IsReferenceLineSmoothValid (CreatePathFromLaneSegments env lanes) reference_line = Some b"
      using IsReferenceLineSmoothValid_defined [OF len, of reference_line] by auto
    then show ?thesis using Some by (cases b) (simp_all add: SmoothReferenceLine_def Let_def)
  qed
qed

lemma smooth_candidates_result:
  "\<forall>lanes \<in> set segs. SmoothReferenceLine env flags lanes \<noteq> None \<Longrightarrow>
   smooth_candidates env flags is_allow segs (lines, segments) =
     Some (lines @ List.map_filter (usable_line env flags is_allow) segs,
           segments @ filter (\<lambda>lanes. usable_line env flags is_allow lanes \<noteq> None) segs)"
proof (induction segs arbitrary: lines segments)
  case Nil
  then show ?case by simp
next
  case (Cons lanes rest)
  then have rest: "\<And>ls ss. smooth_candidates env flags is_allow rest (ls, ss) =
     Some (ls @ List.map_filter (usable_line env flags is_allow) rest,
           ss @ filter (\<lambda>lanes. usable_line env flags is_allow lanes \<noteq> None) rest)"
    by simp
  from Cons.prems obtain r where r: "SmoothReferenceLine env flags lanes = Some r"
    by auto
  let ?u = "usable_line env flags is_allow"
  show ?case
  proof (cases "\<not> is_allow \<and> \<not> IsOnSegment lanes")
    case True
    then have u: "?u lanes = None"
      by (simp add: usable_line_def)
    have step: "smooth_candidates env flags is_allow (lanes # rest) (lines, segments) =
        smooth_candidates env flags is_allow rest (lines, segments)"
      using True by simp
    have mf: "List.map_filter ?u (lanes # rest) = List.map_filter ?u rest"
      using u by simp
    have fl: "filter (\<lambda>lanes. ?u lanes \<noteq> None) (lanes # rest) =
        filter (\<lambda>lanes. ?u lanes \<noteq> None) rest"
      using u by simp
    show ?thesis unfolding step mf fl by (rule rest)
  next
    case False
    show ?thesis
    proof (cases r)
      case None
      then have u: "?u lanes = None"
        using r by (simp add: usable_line_def)
      have step: "smooth_candidates env flags is_allow (lanes # rest) (lines, segments) =
          smooth_candidates env flags is_allow rest (lines, segments)"
        using False r None by auto
      have mf: "List.map_filter ?u (lanes # rest) = List.map_filter ?u rest"
        using u by simp
      have fl: "filter (\<lambda>lanes. ?u lanes \<noteq> None) (lanes # rest) =
          filter (\<lambda>lanes. ?u lanes \<noteq> None) rest"
        using u by simp
      show ?thesis unfolding step mf fl by (rule rest)
    next
      case (Some reference_line)
      then have u: "?u lanes = Some reference_line"
        using r False by (auto simp: usable_line_def)
      have step: "smooth_candidates env flags is_allow (lanes # rest) (lines, segments) =
          smooth_candidates env flags is_allow rest (lines @ [reference_line], segments @ [lanes])"
        using False r Some by auto
      have mf: "List.map_filter ?u (lanes # rest) = reference_line # List.map_filter ?u rest"
        using u by simp
      have fl: "filter (\<lambda>lanes. ?u lanes \<noteq> None) (lanes # rest) =
          lanes # filter (\<lambda>lanes. ?u lanes \<noteq> None) rest"
        using u by simp
      show ?thesis unfolding step mf fl by (simp add: rest)
    qed
  qed
qed

lemma set_PrioritzeChangeLane: "set (PrioritzeChangeLane segs) = set segs"
proof -
  have "set_mset (mset (PrioritzeChangeLane segs)) = set_mset (mset segs)"
  proof (cases "\<forall>seg \<in> set segs. IsOnSegment seg")
    case True
    then show ?thesis
      by (simp add: PrioritzeChangeLane_def PrioritzeChangeLane_from_all_on)
  next
    case False
    then obtain pre seg post where
      s: "segs = pre @ seg # post" and on: "\<forall>p \<in> set pre. IsOnSegment p" and off: "\<not> IsOnSegment seg"
      using first_off_split by blast
    have res: "PrioritzeChangeLane segs = seg # pre @ post"
      using PrioritzeChangeLane_from_first_off [OF on off, of "[]" post]
      by (simp add: PrioritzeChangeLane_def s)
    show ?thesis unfolding res by (simp add: s)
  qed
  then show ?thesis by simp
qed

lemma map_filter_eq_Nil_iff:
  "List.map_filter f xs = [] \<longleftrightarrow> (\<forall>x \<in> set xs. f x = None)"
  by (induction xs) (auto split: option.splits)

text \<open>The run without the log, written out.\<close>

lemma CreateReferenceLineFromRouting_eq:
  "CreateReferenceLineFromRouting env flags st out =
     (let look_forward_distance = look_forward_distance_of flags (vehicle_state st);
          point = snapshot_point st
      in case pnc_GetRouteSegments env (pnc_map st) (vehicle_state st)
                (FLAGS_look_backward_distance flags) look_forward_distance of
           None \<Rightarrow> Some (False, out, st)
         | Some segs0 \<Rightarrow>
             (let segs = (if FLAGS_prioritize_change_lane flags
                          then PrioritzeChangeLane segs0 else segs0);
                  allowed = IsAllowChangeLane flags point segs (segment_history st);
                  st' = st\<lparr>segment_history := snd allowed\<rparr>
              in case smooth_candidates env flags (fst allowed) segs out of
                   None \<Rightarrow> None
                 | Some (lines, segments) \<Rightarrow> Some (lines \<noteq> [], (lines, segments), st')))"
  by (simp add: CreateReferenceLineFromRouting_def CreateReferenceLineFromRouting_traced_def
      IsAllowChangeLane_logged_def Let_def split: option.splits)

lemma CreateReferenceLineFromRouting_unfold:
  assumes "pnc_GetRouteSegments env (pnc_map st) (vehicle_state st)
      (FLAGS_look_backward_distance flags) (look_forward_distance_of flags (vehicle_state st))
      = Some segs0"
  shows "CreateReferenceLineFromRouting env flags st out =
    (case smooth_candidates env flags
            (fst (IsAllowChangeLane flags (snapshot_point st) segs0 (segment_history st)))
            (if FLAGS_prioritize_change_lane flags then PrioritzeChangeLane segs0 else segs0) out of
       None \<Rightarrow> None
     | Some (lines, segments) \<Rightarrow>
         Some (lines \<noteq> [], (lines, segments),
               st\<lparr>segment_history :=
                 snd (IsAllowChangeLane flags (snapshot_point st) segs0 (segment_history st))\<rparr>))"
  using assms
  by (simp add: CreateReferenceLineFromRouting_eq Let_def IsAllowChangeLane_PrioritzeChangeLane
      split: option.splits)



subsection \<open>The concrete collaborators, evaluated\<close>

lemma eval_allow_4:
  "IsAllowChangeLane flags0 point34 [seg_on, seg_off2, seg_off] hist_a = (True, hist_a')"
  by (simp add: IsAllowChangeLane_def Let_def flags0_def seg_on_def point34_def origin_def
      hist_a_def hist_a'_def DistanceXY_def sqrt_25 kChangeLaneMinL_def
      kChangeLaneMinLengthFactor_def double_0_6_times_10 double_small)

lemma eval_valid_near: "IsReferenceLineSmoothValid (raw_of seg_on) line_near = Some True"
  by (simp add: IsReferenceLineSmoothValid_def IsReferenceLineSmoothValid_from.simps
      raw_of_def seg_on_def line_near_def DistanceTo_def
      kReferenceLineDiffCheckResolution_def INT_MAX_def double_small)

lemma eval_valid_near2: "IsReferenceLineSmoothValid (raw_of seg_off2) line_near = Some True"
  by (simp add: IsReferenceLineSmoothValid_def IsReferenceLineSmoothValid_from.simps
      raw_of_def seg_off2_def line_near_def DistanceTo_def
      kReferenceLineDiffCheckResolution_def INT_MAX_def double_small)

lemma eval_valid_far: "IsReferenceLineSmoothValid (raw_of seg_off) line_far = Some False"
  by (simp add: IsReferenceLineSmoothValid_def IsReferenceLineSmoothValid_from.simps
      raw_of_def seg_off_def line_far_def DistanceTo_def
      kReferenceLineDiffCheckResolution_def INT_MAX_def sqrt_36 double_small)

lemma eval_smooth_on: "SmoothReferenceLine env0 flags0 seg_on = Some (Some line_near)"
  using eval_valid_near
  by (simp add: SmoothReferenceLine_def env0_def flags0_def Let_def)
    (simp add: raw_of_def seg_on_def)

lemma eval_smooth_off2: "SmoothReferenceLine env0 flags0 seg_off2 = Some (Some line_near)"
  using eval_valid_near2
  by (simp add: SmoothReferenceLine_def env0_def flags0_def Let_def)
    (simp add: raw_of_def seg_off2_def)

lemma eval_smooth_off: "SmoothReferenceLine env0 flags0 seg_off = Some None"
  using eval_valid_far
  by (simp add: SmoothReferenceLine_def env0_def flags0_def Let_def)
    (simp add: raw_of_def seg_off_def)

lemma eval_smooth_noproj: "SmoothReferenceLine env0 flags0 seg_noproj = Some None"
  by (simp add: SmoothReferenceLine_def env0_def flags0_def Let_def raw_of_def seg_noproj_def)

lemma eval_prioritize_4:
  "PrioritzeChangeLane [seg_on, seg_off2, seg_off] = [seg_off2, seg_on, seg_off]"
  by (simp add: PrioritzeChangeLane_def seg_on_def seg_off2_def)

lemma eval_segments_4:
  "pnc_GetRouteSegments env0 (pnc_map (provider0 4)) (vehicle_state (provider0 4))
      (FLAGS_look_backward_distance flags0)
      (look_forward_distance_of flags0 (vehicle_state (provider0 4)))
    = Some [seg_on, seg_off2, seg_off]"
  by (simp add: env0_def provider0_def)

lemma eval_point: "snapshot_point (provider0 k) = point34"
  by (simp add: snapshot_point_def provider0_def vehicle0_def point34_def)

lemma eval_history: "segment_history (provider0 k) = hist_a"
  by (simp add: provider0_def)

lemma eval_on: "IsOnSegment seg_on" "\<not> IsOnSegment seg_off" "\<not> IsOnSegment seg_off2"
  "IsOnSegment seg_noproj"
  by (simp_all add: seg_on_def seg_off_def seg_off2_def seg_noproj_def)

lemma eval_flags: "FLAGS_prioritize_change_lane flags0" "\<not> FLAGS_reckless_change_lane flags0"
  "FLAGS_enable_smooth_reference_line flags0"
  by (simp_all add: flags0_def)






lemma eval_segments_2:
  "pnc_GetRouteSegments env0 (pnc_map (provider0 2)) (vehicle_state (provider0 2))
      (FLAGS_look_backward_distance flags0)
      (look_forward_distance_of flags0 (vehicle_state (provider0 2)))
    = Some [seg_off]"
  by (simp add: env0_def provider0_def)

lemma eval_segments_3:
  "pnc_GetRouteSegments env0 (pnc_map (provider0 3)) (vehicle_state (provider0 3))
      (FLAGS_look_backward_distance flags0)
      (look_forward_distance_of flags0 (vehicle_state (provider0 3)))
    = Some [seg_off, seg_noproj, seg_on]"
  by (simp add: env0_def provider0_def)

lemma eval_provider_same: "(provider0 k)\<lparr>segment_history := hist_a\<rparr> = provider0 k"
  by (simp add: provider0_def)

lemma eval_raw_length: "Length (CreatePathFromLaneSegments env0 lanes) \<le> 2147483645"
  by (simp add: env0_def raw_of_def)

lemma eval_allow_3:
  "IsAllowChangeLane flags0 point34 [seg_off, seg_noproj, seg_on] hist_a = (False, hist_a)"
  by (simp add: IsAllowChangeLane_def eval_flags eval_on) (simp add: seg_noproj_def)

lemma eval_allow_2: "IsAllowChangeLane flags0 point34 [seg_off] hist_a = (False, hist_a)"
  by (simp add: IsAllowChangeLane_def eval_flags)

lemma eval_prioritize_3:
  "PrioritzeChangeLane [seg_off, seg_noproj, seg_on] = [seg_off, seg_noproj, seg_on]"
  by (simp add: PrioritzeChangeLane_def eval_on)

lemma eval_prioritize_2: "PrioritzeChangeLane [seg_off] = [seg_off]"
  by (simp add: PrioritzeChangeLane_def eval_on)

text \<open>
  A run that retrieves the candidates \<open>segs0\<close>, whose raw lines have
  lengths in the range of the validator's counter, and that is called with both output
  lists empty, returns. With \<open>segs\<close> the candidates in the order of the loop and \<open>is_allow\<close> the
  eligibility answer of the run, it returns true exactly when some candidate has a usable
  line, and its output is the lines of the candidates that have one, with those
  candidates, in the order of \<open>segs\<close>. A candidate whose smoother or validation fails has
  no usable line and is only left out.
\<close>

lemma CreateReferenceLineFromRouting_fresh_lists:
  assumes "pnc_GetRouteSegments env (pnc_map st) (vehicle_state st)
      (FLAGS_look_backward_distance flags) (look_forward_distance_of flags (vehicle_state st))
      = Some segs0"
    and "\<forall>lanes \<in> set segs0. Length (CreatePathFromLaneSegments env lanes) \<le> 2147483645"
    and "segs = (if FLAGS_prioritize_change_lane flags then PrioritzeChangeLane segs0 else segs0)"
    and "allowed = IsAllowChangeLane flags (snapshot_point st) segs0 (segment_history st)"
  shows "CreateReferenceLineFromRouting env flags st ([], []) =
      Some (\<exists>lanes \<in> set segs. usable_line env flags (fst allowed) lanes \<noteq> None,
            (List.map_filter (usable_line env flags (fst allowed)) segs,
             filter (\<lambda>lanes. usable_line env flags (fst allowed) lanes \<noteq> None) segs),
            st\<lparr>segment_history := snd allowed\<rparr>)"
proof -
  have "set segs = set segs0"
    using assms(3) by (simp add: set_PrioritzeChangeLane)
  then have "\<forall>lanes \<in> set segs. SmoothReferenceLine env flags lanes \<noteq> None"
    using assms(2) SmoothReferenceLine_defined by blast
  then have loop: "smooth_candidates env flags (fst allowed) segs ([], []) =
      Some (List.map_filter (usable_line env flags (fst allowed)) segs,
            filter (\<lambda>lanes. usable_line env flags (fst allowed) lanes \<noteq> None) segs)"
    using smooth_candidates_result [of segs env flags "fst allowed" "[]" "[]"] by simp
  have ok: "(List.map_filter (usable_line env flags (fst allowed)) segs \<noteq> []) =
      (\<exists>lanes \<in> set segs. usable_line env flags (fst allowed) lanes \<noteq> None)"
    by (simp add: map_filter_eq_Nil_iff)
  show ?thesis
    unfolding CreateReferenceLineFromRouting_unfold [OF assms(1)]
    using loop ok assms(3,4) by simp
qed

text \<open>
  Routing 3 with the history \<open>hist_a\<close>: the projection onto the forward segment fails, so
  lane change is not allowed. \<open>seg_off\<close> is passed over, the smoother fails on
  \<open>seg_noproj\<close>, and the run succeeds with the line of \<open>seg_on\<close> alone. Routing 2 has the
  single candidate \<open>seg_off\<close>, which is passed over: the run fails with empty lists.
  Routing 4 with the history \<open>hist_a\<close>: lane change is allowed, the smoothed line of
  \<open>seg_off\<close> fails the validation and is left out, and the run succeeds with the lines of
  \<open>seg_off2\<close> and \<open>seg_on\<close>, in the order the prioritizer gave the candidates.
\<close>

lemma CreateReferenceLineFromRouting_fresh_lists_examples:
  "CreateReferenceLineFromRouting env0 flags0 (provider0 3) ([], []) =
     Some (True, ([line_near], [seg_on]), provider0 3) \<and>
   CreateReferenceLineFromRouting env0 flags0 (provider0 2) ([], []) =
     Some (False, ([], []), provider0 2) \<and>
   CreateReferenceLineFromRouting env0 flags0 (provider0 4) ([], []) =
     Some (True, ([line_near, line_near], [seg_off2, seg_on]),
           (provider0 4)\<lparr>segment_history := hist_a'\<rparr>)"
proof -
  have in_range: "\<And>segs0. \<forall>lanes \<in> set segs0.
      Length (CreatePathFromLaneSegments env0 lanes) \<le> 2147483645"
    by (simp add: eval_raw_length)
  have u: "usable_line env0 flags0 False seg_off = None"
    "usable_line env0 flags0 False seg_noproj = None"
    "usable_line env0 flags0 False seg_on = Some line_near"
    "usable_line env0 flags0 True seg_off2 = Some line_near"
    "usable_line env0 flags0 True seg_on = Some line_near"
    "usable_line env0 flags0 True seg_off = None"
    by (simp_all add: usable_line_def eval_on eval_smooth_noproj eval_smooth_on
        eval_smooth_off2 eval_smooth_off)
  have a4: "(True, hist_a') =
      IsAllowChangeLane flags0 (snapshot_point (provider0 4)) [seg_on, seg_off2, seg_off]
        (segment_history (provider0 4))"
    by (simp add: eval_point eval_history eval_allow_4)
  have p4: "[seg_off2, seg_on, seg_off] =
      (if FLAGS_prioritize_change_lane flags0
       then PrioritzeChangeLane [seg_on, seg_off2, seg_off] else [seg_on, seg_off2, seg_off])"
    by (simp add: eval_prioritize_4 eval_flags)
  have a3: "(False, hist_a) =
      IsAllowChangeLane flags0 (snapshot_point (provider0 3)) [seg_off, seg_noproj, seg_on]
        (segment_history (provider0 3))"
    by (simp add: eval_point eval_history eval_allow_3)
  have a2: "(False, hist_a) =
      IsAllowChangeLane flags0 (snapshot_point (provider0 2)) [seg_off]
        (segment_history (provider0 2))"
    by (simp add: eval_point eval_history eval_allow_2)
  have p3: "[seg_off, seg_noproj, seg_on] =
      (if FLAGS_prioritize_change_lane flags0
       then PrioritzeChangeLane [seg_off, seg_noproj, seg_on] else [seg_off, seg_noproj, seg_on])"
    by (simp add: eval_prioritize_3)
  have p2: "[seg_off] =
      (if FLAGS_prioritize_change_lane flags0 then PrioritzeChangeLane [seg_off] else [seg_off])"
    by (simp add: eval_prioritize_2)
  show ?thesis
    using CreateReferenceLineFromRouting_fresh_lists [OF eval_segments_3 in_range p3 a3]
      CreateReferenceLineFromRouting_fresh_lists [OF eval_segments_2 in_range p2 a2]
      CreateReferenceLineFromRouting_fresh_lists [OF eval_segments_4 in_range p4 a4]
    by (simp add: u eval_provider_same)
qed

section \<open>Properties of GetReferenceLines\<close>

lemma eval_flags_sync: "FLAGS_prioritize_change_lane flags_sync"
  "\<not> FLAGS_reckless_change_lane flags_sync"
  "\<not> FLAGS_enable_reference_line_provider_thread flags_sync"
  "FLAGS_enable_reference_line_provider_thread flags0"
  by (simp_all add: flags_sync_def flags0_def)

lemma eval_segments_2_sync:
  "pnc_GetRouteSegments env0 (pnc_map (provider0 2)) (vehicle_state (provider0 2))
      (FLAGS_look_backward_distance flags_sync)
      (look_forward_distance_of flags_sync (vehicle_state (provider0 2)))
    = Some [seg_off]"
  by (simp add: env0_def provider0_def)

lemma eval_allow_2_sync:
  "IsAllowChangeLane flags_sync point34 [seg_off] hist_a = (False, hist_a)"
  by (simp add: IsAllowChangeLane_def eval_flags_sync)

lemma eval_create_2_sync:
  "CreateReferenceLineFromRouting env0 flags_sync (provider0 2) out =
     Some (fst out \<noteq> [], out, provider0 2)"
  by (cases out)
    (simp add: CreateReferenceLineFromRouting_unfold [OF eval_segments_2_sync]
      eval_point eval_history eval_allow_2_sync eval_prioritize_2 eval_flags_sync eval_on
      eval_provider_same)

text \<open>
  C5: with the worker thread disabled, \<^verbatim>\<open>GetReferenceLines\<close> passes its caller's lists on
  to the run, which appends to them and tests them for emptiness. With routing 2 the map
  returns the single candidate \<open>seg_off\<close>, which has no usable line. Called with empty
  lists the run fails. Called with lists that hold a line, the same run returns true and
  hands the caller's line back, although no candidate has a usable line. With the worker
  thread enabled the caller's lists are replaced by the snapshot.
\<close>

theorem C5_stale_output_lists:
  "pnc_GetRouteSegments env0 (pnc_map (provider0 2)) (vehicle_state (provider0 2))
      (FLAGS_look_backward_distance flags_sync)
      (look_forward_distance_of flags_sync (vehicle_state (provider0 2))) = Some [seg_off] \<and>
   usable_line env0 flags_sync
      (fst (IsAllowChangeLane flags_sync (snapshot_point (provider0 2)) [seg_off]
         (segment_history (provider0 2)))) seg_off = None \<and>
   GetReferenceLines env0 flags_sync (provider0 2) ([], []) =
     Some (False, ([], []), provider0 2) \<and>
   GetReferenceLines env0 flags_sync (provider0 2) ([line_near], [seg_on]) =
     Some (True, ([line_near], [seg_on]), provider0 2) \<and>
   GetReferenceLines env0 flags0 provider_published ([line_far], [seg_off]) =
     Some (True, ([line_near], [seg_on]), provider_published)"
  by (simp add: GetReferenceLines_def eval_flags_sync eval_create_2_sync eval_segments_2_sync
      eval_point eval_history eval_allow_2_sync usable_line_def eval_on)
    (simp add: provider_published_def)

section \<open>Properties of the worker\<close>

lemma CreateReferenceLineFromRouting_snapshot:
  assumes "CreateReferenceLineFromRouting env flags st out = Some (ok, (lines, segments), st')"
  shows "reference_lines st' = reference_lines st \<and> route_segments st' = route_segments st \<and>
    (out = ([], []) \<longrightarrow> ok = (lines \<noteq> []))"
  using assms
  by (auto simp: CreateReferenceLineFromRouting_eq Let_def split: option.splits)

lemma UpdateRoutingResponse_snapshot:
  "reference_lines (snd (UpdateRoutingResponse env routing st)) = reference_lines st"
  by (cases "pnc_UpdateRoutingResponse env (pnc_map st) routing")
    (auto simp: UpdateRoutingResponse_def split: bool.splits)

lemma GenerateThread_iteration_published:
  assumes "GenerateThread_iteration env flags st = Some (published, st')"
  shows "(published \<longrightarrow> has_routing st \<and>
      (\<exists>st''. CreateReferenceLineFromRouting env flags st ([], []) =
            Some (True, (reference_lines st', route_segments st'), st'')) \<and>
      reference_lines st' \<noteq> []) \<and>
    (\<not> published \<longrightarrow>
      reference_lines st' = reference_lines st \<and> route_segments st' = route_segments st)"
proof (cases "has_routing st")
  case False
  then show ?thesis using assms by (simp add: GenerateThread_iteration_def)
next
  case True
  then obtain ok lines segments st'' where
    run: "CreateReferenceLineFromRouting env flags st ([], []) = Some (ok, (lines, segments), st'')"
    using assms
    by (cases "CreateReferenceLineFromRouting env flags st ([], [])")
      (auto simp: GenerateThread_iteration_def)
  note snap = CreateReferenceLineFromRouting_snapshot [OF run]
  show ?thesis
  proof (cases ok)
    case True
    then show ?thesis
      using assms \<open>has_routing st\<close> run snap by (auto simp: GenerateThread_iteration_def)
  next
    case False
    then show ?thesis
      using assms \<open>has_routing st\<close> run snap by (auto simp: GenerateThread_iteration_def)
  qed
qed

lemma run_invariant:
  "run env flags evs (st, n) = Some (st', n') \<Longrightarrow>
   (reference_lines st = []) = (n = 0) \<Longrightarrow> (reference_lines st' = []) = (n' = 0)"
proof (induction evs arbitrary: st n)
  case Nil
  then show ?case by simp
next
  case (Cons ev evs)
  show ?case
  proof (cases ev)
    case (Routing routing)
    then show ?thesis
      using Cons.prems Cons.IH [of "snd (UpdateRoutingResponse env routing st)" n]
      by (simp add: UpdateRoutingResponse_snapshot)
  next
    case (Vehicle vs)
    then show ?thesis
      using Cons.prems Cons.IH [of "UpdateVehicleState vs st" n]
      by (simp add: UpdateVehicleState_def)
  next
    case Iteration
    with Cons.prems(1) obtain published st1 where
      it: "GenerateThread_iteration env flags st = Some (published, st1)"
      and rest: "run env flags evs (st1, if published then Suc n else n) = Some (st', n')"
      by (auto split: option.splits)
    have "(reference_lines st1 = []) = ((if published then Suc n else n) = 0)"
      using GenerateThread_iteration_published [OF it] Cons.prems(2) by auto
    then show ?thesis using Cons.IH [OF rest] by simp
  qed
qed

text \<open>
  C9: an iteration of the worker publishes only after a run of the pipeline, started with
  empty lists, that returned true, and then the snapshot is the non-empty output of that
  run; an iteration that does not publish leaves the snapshot as it was. So for a provider
  that starts with an empty snapshot, after any sequence of routing updates, vehicle state
  updates and iterations, the snapshot is empty exactly when no iteration has published.
\<close>

theorem C9_snapshot_invariant:
  "(GenerateThread_iteration env flags st = Some (published, st') \<longrightarrow>
      (published \<longrightarrow> has_routing st \<and>
         (\<exists>st''. CreateReferenceLineFromRouting env flags st ([], []) =
               Some (True, (reference_lines st', route_segments st'), st'')) \<and>
         reference_lines st' \<noteq> []) \<and>
      (\<not> published \<longrightarrow>
         reference_lines st' = reference_lines st \<and> route_segments st' = route_segments st)) \<and>
   (reference_lines st0 = [] \<and> run env flags evs (st0, 0) = Some (st1, n) \<longrightarrow>
      (reference_lines st1 = []) = (n = 0))"
  using GenerateThread_iteration_published [of env flags st published st']
    run_invariant [of env flags evs st0 0 st1 n]
  by blast


lemma eval_provider_empty: "reference_lines (provider0 k) = []"
  by (simp add: provider0_def)

lemma eval_iteration_no_routing:
  "GenerateThread_iteration env0 flags0 (provider0 0) = Some (False, provider0 0)"
  by (simp add: GenerateThread_iteration_def provider0_def)

lemma eval_routing_0: "UpdateRoutingResponse env0 0 (provider0 0) = (False, provider0 0)"
  by (simp add: UpdateRoutingResponse_def env0_def provider0_def)

lemma eval_routing_4: "UpdateRoutingResponse env0 4 (provider0 0) = (True, provider_routed)"
  by (simp add: UpdateRoutingResponse_def env0_def provider0_def provider_routed_def)

lemma eval_segments_routed:
  "pnc_GetRouteSegments env0 (pnc_map provider_routed) (vehicle_state provider_routed)
      (FLAGS_look_backward_distance flags0)
      (look_forward_distance_of flags0 (vehicle_state provider_routed))
    = Some [seg_on, seg_off2, seg_off]"
  by (simp add: env0_def provider_routed_def)

lemma eval_allow_first:
  "IsAllowChangeLane flags0 point34 [seg_on, seg_off2, seg_off] Map.empty = (False, hist_first)"
  by (simp add: IsAllowChangeLane_def eval_flags eval_on hist_first_def)
    (simp add: seg_on_def point34_def)

lemma eval_create_routed:
  "CreateReferenceLineFromRouting env0 flags0 provider_routed ([], []) =
     Some (True, ([line_near], [seg_on]), provider_routed\<lparr>segment_history := hist_first\<rparr>)"
proof -
  have point: "snapshot_point provider_routed = point34"
    by (simp add: snapshot_point_def provider_routed_def vehicle0_def point34_def)
  have hist: "segment_history provider_routed = Map.empty"
    by (simp add: provider_routed_def)
  show ?thesis
    by (simp add: CreateReferenceLineFromRouting_unfold [OF eval_segments_routed] point hist
        eval_allow_first eval_prioritize_4 eval_flags eval_on eval_smooth_on)
qed

lemma eval_iteration_publish:
  "GenerateThread_iteration env0 flags0 provider_routed = Some (True, provider_published)"
  by (simp add: GenerateThread_iteration_def eval_create_routed)
    (simp add: provider_routed_def provider_published_def)

lemma eval_run:
  "run env0 flags0 [Iteration, Routing 0, Iteration, Routing 4, Iteration] (provider0 0, 0)
     = Some (provider_published, 1)"
  by (simp add: eval_iteration_no_routing eval_routing_0 eval_routing_4 eval_iteration_publish)

text \<open>
  A provider without routing: the first iteration does nothing, routing 0 is rejected, the
  next iteration does nothing, routing 4 is accepted, and the third iteration publishes the
  line of \<open>seg_on\<close>, the only candidate let through at a first observation.
\<close>

theorem C9_snapshot_invariant_witness:
  "run env0 flags0 [Iteration, Routing 0, Iteration, Routing 4, Iteration] (provider0 0, 0)
     = Some (provider_published, 1) \<and>
   GenerateThread_iteration env0 flags0 provider_routed = Some (True, provider_published) \<and>
   reference_lines (provider0 0) = [] \<and>
   reference_lines provider_published \<noteq> [] \<and>
   has_routing provider_routed \<and>
   (\<exists>st''. CreateReferenceLineFromRouting env0 flags0 provider_routed ([], []) =
      Some (True, (reference_lines provider_published, route_segments provider_published), st''))"
  using C9_snapshot_invariant [of env0 flags0 provider_routed True provider_published
      "provider0 0" "[Iteration, Routing 0, Iteration, Routing 4, Iteration]"
      provider_published 1]
    eval_provider_empty [of 0]
  by (simp add: eval_iteration_no_routing eval_routing_0 eval_routing_4 eval_iteration_publish)

end
